theory Spec2Isabelle
  imports Main "HOL-Library.Word"
begin

unbundle bit_operations_syntax

section \<open>Data model\<close>

text \<open>
  Byte slices of Go's \<open>net\<close> package: \<open>net.IP\<close> and \<open>net.HardwareAddr\<close> are
  \<open>[]byte\<close>. A field of such a type is an \<open>option\<close>: \<open>None\<close> is the nil slice.
  Pointers (\<open>*net.UDPAddr\<close>, \<open>*Swarm\<close>, \<open>*Network\<close>, maps) are options as well,
  \<open>None\<close> being nil.
\<close>

type_synonym byte = "8 word"

record UDPAddr =
  udp_IP :: "byte list"
  udp_Port :: int

text \<open>Every \<open>fmt.Errorf\<close> of the repository is \<open>Errorf\<close> with its message. An error
  handed back by the UDP socket's \<open>SendMessage\<close> is a \<open>TransportError\<close>, and a nil
  pointer dereference is \<open>Panic\<close>.\<close>

datatype error = Errorf string | TransportError string | Panic string

datatype PeerState =
    PeerStateInit
  | PeerStateRequestedIP
  | PeerStateRequestingProxy
  | PeerStateWaitingForProxy
  | PeerStateWaitingToConnect
  | PeerStateConnecting
  | PeerStateConnected
  | PeerStateDisconnect
  | PeerStateStop
  | PeerStateCooldown

text \<open>The fields of \<open>NetworkPeer\<close> that the swarm table and the instance runtime read.\<close>

record NetworkPeer =
  PeerLocalIP :: "byte list option"
  PeerHW :: "byte list option"
  Endpoint :: "UDPAddr option"
  State :: PeerState

section \<open>Text forms of addresses\<close>

text \<open>\<open>net.HardwareAddr.String\<close>: the empty text for a slice of length 0, else the
  bytes as two lower-case hexadecimal digits each, separated by colons.\<close>

definition hexdigit :: "nat \<Rightarrow> char" where
  "hexdigit n = ''0123456789abcdef'' ! (n mod 16)"

definition hex2 :: "byte \<Rightarrow> string" where
  "hex2 b = [hexdigit (unat b div 16), hexdigit (unat b mod 16)]"

fun hex_colon :: "byte list \<Rightarrow> string" where
  "hex_colon [] = []"
| "hex_colon [b] = hex2 b"
| "hex_colon (b # bs) = hex2 b @ '':'' @ hex_colon bs"

definition HardwareAddr_String :: "byte list option \<Rightarrow> string" where
  "HardwareAddr_String hw = (case hw of None \<Rightarrow> [] | Some bs \<Rightarrow> hex_colon bs)"

text \<open>\<open>net.IP.String\<close> is library code: the text of a nil address is \<open><nil>\<close>, the text
  of any other address is given by the parameter \<open>ipStr\<close>.\<close>

definition IP_String :: "(byte list \<Rightarrow> string) \<Rightarrow> byte list option \<Rightarrow> string" where
  "IP_String ipStr ip = (case ip of None \<Rightarrow> ''<nil>'' | Some bs \<Rightarrow> ipStr bs)"

text \<open>The dotted decimal text of a four-byte address, which is what \<open>net.IP.String\<close>
  prints for it; the concrete examples below use it for \<open>ipStr\<close>.\<close>

definition decdigit :: "nat \<Rightarrow> char" where
  "decdigit n = ''0123456789'' ! (n mod 10)"

definition dec_byte :: "byte \<Rightarrow> string" where
  "dec_byte b =
     (let n = unat b
      in if n < 10 then [decdigit n]
         else if n < 100 then [decdigit (n div 10), decdigit n]
         else [decdigit (n div 100), decdigit (n div 10), decdigit n])"

fun dotted :: "byte list \<Rightarrow> string" where
  "dotted [] = ''<nil>''"
| "dotted [b] = dec_byte b"
| "dotted (b # bs) = dec_byte b @ ''.'' @ dotted bs"

section \<open>Swarm table\<close>

datatype ListOperation = OperateDelete | OperateUpdate | OperateOther

record Swarm =
  peers :: "(string \<rightharpoonup> NetworkPeer) option"
  tableIPID :: "(string \<rightharpoonup> string) option"
  tableMacID :: "(string \<rightharpoonup> string) option"

text \<open>Reading a nil map finds nothing.\<close>

definition map_get :: "('k \<rightharpoonup> 'v) option \<Rightarrow> 'k \<Rightarrow> 'v option" where
  "map_get m k = (case m of None \<Rightarrow> None | Some f \<Rightarrow> f k)"

definition Init :: "Swarm" where
  "Init = \<lparr>peers = Some Map.empty, tableIPID = Some Map.empty, tableMacID = Some Map.empty\<rparr>"

text \<open>\<open>updateTables\<close> and \<open>deleteTables\<close> are called from \<open>operate\<close> only, after its
  checks that no map is nil.\<close>

definition updateTables :: "string \<Rightarrow> string \<Rightarrow> string \<Rightarrow> Swarm \<Rightarrow> Swarm" where
  "updateTables pid ip mac l =
     (let l1 = (if ip \<noteq> [] then l\<lparr>tableIPID := map_option (\<lambda>t. t(ip \<mapsto> pid)) (tableIPID l)\<rparr> else l)
      in (if mac \<noteq> [] then l1\<lparr>tableMacID := map_option (\<lambda>t. t(mac \<mapsto> pid)) (tableMacID l1)\<rparr>
          else l1))"

definition deleteTables :: "string \<Rightarrow> string \<Rightarrow> Swarm \<Rightarrow> Swarm" where
  "deleteTables ip mac l =
     (let l1 = (if ip \<noteq> [] \<and> map_get (tableIPID l) ip \<noteq> None
                then l\<lparr>tableIPID := map_option (\<lambda>t. t(ip := None)) (tableIPID l)\<rparr> else l)
      in (if mac \<noteq> [] \<and> map_get (tableMacID l1) mac \<noteq> None
          then l1\<lparr>tableMacID := map_option (\<lambda>t. t(mac := None)) (tableMacID l1)\<rparr>
          else l1))"

text \<open>\<open>operate\<close>: the error it returns (\<open>None\<close> is Go's nil error) and the table after
  it. An update through a nil peer pointer dereferences it.\<close>

definition operate ::
  "(byte list \<Rightarrow> string) \<Rightarrow> ListOperation \<Rightarrow> string \<Rightarrow> NetworkPeer option \<Rightarrow> Swarm
     \<Rightarrow> error option \<times> Swarm" where
  "operate ipStr action pid peer l =
     (if peers l = None then (Some (Errorf ''peers is nil - not initialized''), l)
      else if tableIPID l = None then (Some (Errorf ''IP-ID table is nil - not initialized''), l)
      else if tableMacID l = None then (Some (Errorf ''Mac-ID table is nil - not initialized''), l)
      else (case action of
          OperateUpdate \<Rightarrow>
            (case peer of
               None \<Rightarrow> (Some (Panic ''nil pointer dereference''), l)
             | Some p \<Rightarrow>
                 (let l1 = l\<lparr>peers := map_option (\<lambda>m. m(pid \<mapsto> p)) (peers l)\<rparr>;
                      ip = (if PeerLocalIP p \<noteq> None then IP_String ipStr (PeerLocalIP p) else []);
                      mac = (if PeerHW p \<noteq> None then HardwareAddr_String (PeerHW p) else [])
                  in (None, updateTables pid ip mac l1)))
        | OperateDelete \<Rightarrow>
            (case map_get (peers l) pid of
               None \<Rightarrow> (Some (Errorf ''can't delete peer: entry doesn't exists''), l)
             | Some p \<Rightarrow>
                 (let l1 = deleteTables (IP_String ipStr (PeerLocalIP p))
                             (HardwareAddr_String (PeerHW p)) l
                  in (None, l1\<lparr>peers := map_option (\<lambda>m. m(pid := None)) (peers l1)\<rparr>)))
        | OperateOther \<Rightarrow> (None, l)))"

text \<open>The public mutators return nothing: the error of \<open>operate\<close> is dropped.\<close>

definition Delete :: "(byte list \<Rightarrow> string) \<Rightarrow> string \<Rightarrow> Swarm \<Rightarrow> unit \<times> Swarm" where
  "Delete ipStr pid l = ((), snd (operate ipStr OperateDelete pid None l))"

definition Update :: "(byte list \<Rightarrow> string) \<Rightarrow> string \<Rightarrow> NetworkPeer \<Rightarrow> Swarm \<Rightarrow> unit \<times> Swarm" where
  "Update ipStr pid peer l = ((), snd (operate ipStr OperateUpdate pid (Some peer) l))"

text \<open>\<open>Get\<close> copies the primary map; ranging over a nil map visits nothing.\<close>

definition Get :: "Swarm \<Rightarrow> (string \<rightharpoonup> NetworkPeer)" where
  "Get l = (case peers l of None \<Rightarrow> Map.empty | Some m \<Rightarrow> m)"

definition GetPeer :: "Swarm \<Rightarrow> string \<Rightarrow> NetworkPeer option" where
  "GetPeer l pid = map_get (peers l) pid"

definition GetEndpoint :: "Swarm \<Rightarrow> string \<Rightarrow> error + UDPAddr" where
  "GetEndpoint l mac =
     (case map_get (tableMacID l) mac of
        Some pid \<Rightarrow>
          (case map_get (peers l) pid of
             Some peer \<Rightarrow>
               (case Endpoint peer of
                  Some ep \<Rightarrow> Inr ep
                | None \<Rightarrow> Inl (Errorf ''Specified hardware address was not found in table''))
           | None \<Rightarrow> Inl (Errorf ''Specified hardware address was not found in table''))
      | None \<Rightarrow> Inl (Errorf ''Specified hardware address was not found in table''))"

definition GetID :: "Swarm \<Rightarrow> string \<Rightarrow> error + string" where
  "GetID l ip =
     (case map_get (tableIPID l) ip of
        Some pid \<Rightarrow> Inr pid
      | None \<Rightarrow> Inl (Errorf ''Specified IP was not found in table''))"


text \<open>Sequences of the two public mutators, run from left to right.\<close>

datatype swarm_op = OpUpdate string NetworkPeer | OpDelete string

fun apply_op :: "(byte list \<Rightarrow> string) \<Rightarrow> swarm_op \<Rightarrow> Swarm \<Rightarrow> Swarm" where
  "apply_op ipStr (OpUpdate pid p) l = snd (Update ipStr pid p l)"
| "apply_op ipStr (OpDelete pid) l = snd (Delete ipStr pid l)"

fun run_ops :: "(byte list \<Rightarrow> string) \<Rightarrow> swarm_op list \<Rightarrow> Swarm \<Rightarrow> Swarm" where
  "run_ops ipStr [] l = l"
| "run_ops ipStr (x # xs) l = run_ops ipStr xs (apply_op ipStr x l)"

text \<open>The keys under which \<open>operate\<close> indexes a peer on an update: the empty text
  stands for "not indexed".\<close>

definition ipkey :: "(byte list \<Rightarrow> string) \<Rightarrow> NetworkPeer \<Rightarrow> string" where
  "ipkey ipStr p = (if PeerLocalIP p \<noteq> None then IP_String ipStr (PeerLocalIP p) else [])"

definition mackey :: "NetworkPeer \<Rightarrow> string" where
  "mackey p = (if PeerHW p \<noteq> None then HardwareAddr_String (PeerHW p) else [])"






text \<open>A peer with both addresses set, for the concrete runs below.\<close>

definition peer_with :: "byte list \<Rightarrow> byte list \<Rightarrow> PeerState \<Rightarrow> NetworkPeer" where
  "peer_with ip mac st = \<lparr>PeerLocalIP = Some ip, PeerHW = Some mac, Endpoint = None, State = st\<rparr>"

section \<open>Instance\<close>

text \<open>The device object (\<open>TAPDarwin\<close>): \<open>file_open\<close> says that the file descriptor
  is not nil.\<close>

record TAP =
  tap_IP :: "byte list option"
  Subnet :: "byte list option"
  Mac :: "byte list option"
  Name :: string
  Tool :: string
  file_open :: bool
  Configured :: bool
  Auto :: bool

text \<open>Of the rendezvous client and of the UDP socket, whose declarations are outside
  these sources, the fields that the instance runtime reads.\<close>

record DHTClient =
  NetworkHash :: string
  dht_ID :: string

record Network =
  remotePort :: int
  localPort :: int

record PeerToPeer =
  UDPSocket :: "Network option"
  Dht :: "DHTClient option"
  Shutdown :: bool
  ForwardMode :: bool
  ReadyToStop :: bool
  Hash :: string
  Interface :: "TAP option"
  Swarm :: "Swarm option"
  outboundIP :: "byte list option"

subsection \<open>SendTo\<close>

text \<open>\<open>SendMessage\<close> of the socket is the parameter \<open>sendMessage\<close>: the bytes written
  and the error of one send. A nil message is \<open>None\<close>.\<close>

definition SendTo ::
  "('msg \<Rightarrow> UDPAddr \<Rightarrow> int \<times> error option) \<Rightarrow> PeerToPeer \<Rightarrow> byte list option \<Rightarrow> 'msg option
     \<Rightarrow> int \<times> error option" where
  "SendTo sendMessage p dst msg =
     (case Swarm p of
        None \<Rightarrow> (- 1, Some (Errorf ''SendTo: nil peer list''))
      | Some sw \<Rightarrow>
          if UDPSocket p = None then (- 1, Some (Errorf ''SendTo: nil udp socket''))
          else (case msg of
              None \<Rightarrow> (- 1, Some (Errorf ''SendTo: nil msg''))
            | Some m \<Rightarrow>
                if dst = None then (- 1, Some (Errorf ''SendTo: nil dst''))
                else (case GetEndpoint sw (HardwareAddr_String dst) of
                    Inr endpoint \<Rightarrow> sendMessage m endpoint
                  | Inl err \<Rightarrow> (0, None))))"

text \<open>A hardware address is not resolvable through the table when the MAC index has
  no entry for its text, or the identifier found there is not in the primary map, or
  the peer found has no endpoint.\<close>

definition unresolvable :: "Swarm \<Rightarrow> byte list \<Rightarrow> bool" where
  "unresolvable sw mac =
     (case map_get (tableMacID sw) (HardwareAddr_String (Some mac)) of
        None \<Rightarrow> True
      | Some pid \<Rightarrow>
          (case map_get (peers sw) pid of
             None \<Rightarrow> True
           | Some peer \<Rightarrow> Endpoint peer = None))"

subsection \<open>removeStoppedPeers\<close>

text \<open>The loop ranges over the snapshot \<open>Get\<close> returned. Go leaves the order of a map
  range open: \<open>order\<close> is the order in which the identifiers are visited (an identifier
  that is not a key of the snapshot is not visited). The loop ends at the first peer it
  removes.\<close>

fun removeStoppedPeers_range ::
  "(byte list \<Rightarrow> string) \<Rightarrow> (string \<rightharpoonup> NetworkPeer) \<Rightarrow> string list \<Rightarrow> Swarm \<Rightarrow> Swarm" where
  "removeStoppedPeers_range ipStr snap [] l = l"
| "removeStoppedPeers_range ipStr snap (pid # rest) l =
     (case snap pid of
        None \<Rightarrow> removeStoppedPeers_range ipStr snap rest l
      | Some peer \<Rightarrow>
          if State peer = PeerStateStop then snd (Delete ipStr pid l)
          else removeStoppedPeers_range ipStr snap rest l)"

definition removeStoppedPeers ::
  "(byte list \<Rightarrow> string) \<Rightarrow> string list \<Rightarrow> PeerToPeer \<Rightarrow> error option \<times> PeerToPeer" where
  "removeStoppedPeers ipStr order p =
     (case Swarm p of
        None \<Rightarrow> (Some (Errorf ''removeStoppedPeers: nil peer list''), p)
      | Some sw \<Rightarrow>
          (None, p\<lparr>Swarm := Some (removeStoppedPeers_range ipStr (Get sw) order sw)\<rparr>))"

text \<open>The identifiers of the peers whose state is \<open>PeerStateStop\<close>.\<close>

definition stopped :: "Swarm \<Rightarrow> string set" where
  "stopped sw = {pid. \<exists>peer. Get sw pid = Some peer \<and> State peer = PeerStateStop}"

text \<open>Successive ticks of the run loop, each with its own visiting order.\<close>

fun removeStoppedPeers_ticks ::
  "(byte list \<Rightarrow> string) \<Rightarrow> string list list \<Rightarrow> Swarm \<Rightarrow> Swarm" where
  "removeStoppedPeers_ticks ipStr [] l = l"
| "removeStoppedPeers_ticks ipStr (order # orders) l =
     removeStoppedPeers_ticks ipStr orders (removeStoppedPeers_range ipStr (Get l) order l)"

fun orders_cover :: "(byte list \<Rightarrow> string) \<Rightarrow> string list list \<Rightarrow> Swarm \<Rightarrow> bool" where
  "orders_cover ipStr [] l = True"
| "orders_cover ipStr (order # orders) l =
     (set order = dom (Get l) \<and>
      orders_cover ipStr orders (removeStoppedPeers_range ipStr (Get l) order l))"

text \<open>An instance as \<open>New\<close> returns it (socket, rendezvous client and device present,
  no flag set), with the given swarm table; for the concrete runs below.\<close>

definition instance_with :: "Swarm \<Rightarrow> PeerToPeer" where
  "instance_with sw =
     \<lparr>UDPSocket = Some \<lparr>remotePort = 6881, localPort = 6881\<rparr>,
      Dht = Some \<lparr>NetworkHash = ''swarm'', dht_ID = ''00000000-0000-0000-0000-000000000000''\<rparr>,
      Shutdown = False, ForwardMode = False, ReadyToStop = False, Hash = ''swarm'',
      Interface = Some \<lparr>tap_IP = Some [10,1,0,1], Subnet = None, Mac = Some [6,0,0,0,0,0],
        Name = ''tap0'', Tool = ''/sbin/ifconfig'', file_open = True, Configured = True,
        Auto = False\<rparr>,
      Swarm = Some sw, outboundIP = None\<rparr>"

section \<open>Introduction records\<close>

record PeerHandshake =
  ID :: string
  IP :: "byte list option"
  HardwareAddr :: "byte list option"
  hs_Endpoint :: "UDPAddr option"
  AutoIP :: bool

text \<open>\<open>strings.Split\<close> with a one-character separator: the pieces between the
  separators, one piece more than there are separators.\<close>

fun Split :: "string \<Rightarrow> char \<Rightarrow> string list" where
  "Split [] sep = [[]]"
| "Split (x # xs) sep =
     (if x = sep then [] # Split xs sep
      else (case Split xs sep of
              w # ws \<Rightarrow> (x # w) # ws
            | [] \<Rightarrow> [[x]]))"

text \<open>The text of an error value (\<open>err.Error()\<close>, what \<open>%v\<close> and \<open>%s\<close> print).\<close>

fun error_text :: "error \<Rightarrow> string" where
  "error_text (Errorf s) = s"
| "error_text (TransportError s) = s"
| "error_text (Panic s) = s"

text \<open>\<open>ParseIntroString\<close>. The parsers of Go's \<open>net\<close> package are parameters:
  \<open>parseMAC\<close> is \<open>net.ParseMAC\<close>, \<open>parseIP\<close> is \<open>net.ParseIP\<close> (\<open>None\<close> is its nil
  result) and \<open>resolveUDPAddr\<close> is \<open>net.ResolveUDPAddr\<close> on the network \<open>udp4\<close>.\<close>

definition ParseIntroString ::
  "(string \<Rightarrow> error + byte list) \<Rightarrow> (string \<Rightarrow> byte list option) \<Rightarrow> (string \<Rightarrow> error + UDPAddr)
     \<Rightarrow> string \<Rightarrow> error + PeerHandshake" where
  "ParseIntroString parseMAC parseIP resolveUDPAddr intro =
     (let parts = Split intro CHR '',''
      in if length parts \<noteq> 4
         then Inl (Errorf (''Failed to parse introduction string: '' @ intro))
         else (case parseMAC (parts ! 1) of
             Inl err \<Rightarrow>
               Inl (Errorf (''Failed to parse MAC address from introduction packet: '' @ error_text err))
           | Inr hw \<Rightarrow>
               (case (if parts ! 2 = ''auto'' then Inr (True, None)
                      else (case parseIP (parts ! 2) of
                              None \<Rightarrow> Inl (Errorf ''Failed to parse IP address from introduction packet'')
                            | Some ip \<Rightarrow> Inr (False, Some ip))) of
                  Inl err \<Rightarrow> Inl err
                | Inr (auto, ip) \<Rightarrow>
                    (case resolveUDPAddr (parts ! 3) of
                       Inl err \<Rightarrow> Inl (Errorf (''Failed to parse handshake endpoint: '' @ parts ! 3))
                     | Inr ep \<Rightarrow>
                         Inr \<lparr>ID = parts ! 0, IP = ip, HardwareAddr = Some hw,
                              hs_Endpoint = Some ep, AutoIP = auto\<rparr>))))"

text \<open>\<open>PrepareIntroductionMessage\<close>: the comma-separated line, and the message that
  \<open>CreateMessage\<close> (the parameter \<open>createMessage\<close>, given the line as payload) makes of it.\<close>

definition intro_line :: "(byte list \<Rightarrow> string) \<Rightarrow> TAP \<Rightarrow> string \<Rightarrow> string \<Rightarrow> string" where
  "intro_line ipStr t pid endpoint =
     (let ip = (if \<not> Auto t then IP_String ipStr (tap_IP t) else ''auto'')
      in pid @ '','' @ HardwareAddr_String (Mac t) @ '','' @ ip @ '','' @ endpoint)"

definition PrepareIntroductionMessage ::
  "(byte list \<Rightarrow> string) \<Rightarrow> (string \<Rightarrow> error + 'msg) \<Rightarrow> PeerToPeer \<Rightarrow> string \<Rightarrow> string
     \<Rightarrow> error + 'msg" where
  "PrepareIntroductionMessage ipStr createMessage p pid endpoint =
     (case Interface p of
        None \<Rightarrow> Inl (Errorf ''PrepareIntroductionMessage: nil interface'')
      | Some t \<Rightarrow> createMessage (intro_line ipStr t pid endpoint))"

text \<open>Modelled from the spec: the handler of introduction messages
  (\<open>HandleIntroMessage\<close>) is missing from the sources. By the specification the receiver
  parses the record, rejects a record that does not parse with the parse error and
  without altering its swarm table, and otherwise records hardware address, overlay IP
  and observed endpoint for the peer of that identifier.\<close>

definition HandleIntroMessage ::
  "(string \<Rightarrow> error + byte list) \<Rightarrow> (string \<Rightarrow> byte list option) \<Rightarrow> (string \<Rightarrow> error + UDPAddr)
     \<Rightarrow> (byte list \<Rightarrow> string) \<Rightarrow> string \<Rightarrow> PeerToPeer \<Rightarrow> error option \<times> PeerToPeer" where
  "HandleIntroMessage parseMAC parseIP resolveUDPAddr ipStr intro p =
     (case ParseIntroString parseMAC parseIP resolveUDPAddr intro of
        Inl err \<Rightarrow> (Some err, p)
      | Inr hs \<Rightarrow>
          (case Swarm p of
             None \<Rightarrow> (None, p)
           | Some sw \<Rightarrow>
               (case GetPeer sw (ID hs) of
                  None \<Rightarrow> (None, p)
                | Some peer \<Rightarrow>
                    (None, p\<lparr>Swarm := Some (snd (Update ipStr (ID hs)
                       (peer\<lparr>PeerLocalIP := IP hs, PeerHW := HardwareAddr hs,
                             Endpoint := hs_Endpoint hs\<rparr>) sw))\<rparr>))))"

text \<open>Stand-ins for the three library parsers in the concrete examples: each knows the
  one text that occurs there and rejects every other.\<close>

definition example_ParseMAC :: "string \<Rightarrow> error + byte list" where
  "example_ParseMAC s =
     (if s = ''06:00:00:00:00:01'' then Inr [6,0,0,0,0,1]
      else Inl (Errorf (''address '' @ s @ '': invalid MAC address'')))"

definition example_ParseIP :: "string \<Rightarrow> byte list option" where
  "example_ParseIP s = (if s = ''10.1.0.5'' then Some [10,1,0,5] else None)"

definition example_ResolveUDPAddr :: "string \<Rightarrow> error + UDPAddr" where
  "example_ResolveUDPAddr s =
     (if s = ''192.0.2.7:6881'' then Inr \<lparr>udp_IP = [192,0,2,7], udp_Port = 6881\<rparr>
      else Inl (Errorf (''address '' @ s @ '': missing port in address'')))"


section \<open>Endpoint latency probing\<close>

text \<open>Times are integers on the scale of \<open>time.Duration\<close>, so that \<open>time.Since t\<close> at
  the clock reading \<open>now\<close> is \<open>now - t\<close>.\<close>

record Endpoint =
  Addr :: "UDPAddr option"
  LastContact :: int
  LastPing :: int
  broken :: bool
  Latency :: int
  LastLatencyQuery :: int

text \<open>\<open>net.IP.To4\<close>: a four-byte address as it is, the last four bytes of a
  sixteen-byte address with the IPv4-in-IPv6 prefix, nil otherwise.\<close>

definition To4 :: "byte list \<Rightarrow> byte list option" where
  "To4 ip =
     (if length ip = 4 then Some ip
      else if length ip = 16 \<and> take 10 ip = replicate 10 0 \<and> ip ! 10 = 255 \<and> ip ! 11 = 255
           then Some (drop 12 ip)
           else None)"

text \<open>\<open>binary.BigEndian.PutUint16\<close> of \<open>uint16(port)\<close>.\<close>

definition PutUint16 :: "int \<Rightarrow> byte list" where
  "PutUint16 port =
     (let w = (word_of_int port :: 16 word) in [ucast (drop_bit 8 w), ucast w])"

definition addrToBytes :: "Endpoint \<Rightarrow> byte list option" where
  "addrToBytes e =
     (case Addr e of
        None \<Rightarrow> None
      | Some a \<Rightarrow>
          (case To4 (udp_IP a) of
             None \<Rightarrow> None
           | Some ip4 \<Rightarrow> if length ip4 \<noteq> 4 then None else Some (ip4 @ PutUint16 (udp_Port a))))"

text \<open>The bytes of a string (\<open>[]byte(id)\<close>).\<close>

definition bytes_of :: "string \<Rightarrow> byte list" where
  "bytes_of s = map (\<lambda>c. of_nat (of_char c)) s"

text \<open>What lies outside these sources and \<open>Measure\<close> uses, as one parameter record:
  the constants \<open>EndpointLatencyRequestInterval\<close> and \<open>LatencyRequestHeader\<close>, the
  binary form of a clock reading (\<open>MarshalBinary\<close>) and \<open>CreateMessageStatic\<close> for the
  message type \<open>MsgTypeLatency\<close>.\<close>

record 'msg latency_env =
  EndpointLatencyRequestInterval :: int
  LatencyRequestHeader :: "byte list"
  MarshalBinary :: "int \<Rightarrow> byte list"
  CreateMessageStatic :: "byte list \<Rightarrow> error + 'msg"

text \<open>\<open>Measure\<close> at the clock reading \<open>now\<close> (one reading stands for the few that the
  function takes in a row): the endpoint afterwards and the messages handed to
  \<open>SendMessage\<close> of the socket \<open>n\<close>, each with its destination.\<close>

definition Measure ::
  "'msg latency_env \<Rightarrow> int \<Rightarrow> Network option \<Rightarrow> string \<Rightarrow> Endpoint
     \<Rightarrow> Endpoint \<times> ('msg \<times> UDPAddr) list" where
  "Measure env now n pid e =
     (if broken e then (e, [])
      else (case Addr e of
          None \<Rightarrow> (e, [])
        | Some addr \<Rightarrow>
            if n = None then (e, [])
            else if now - LastLatencyQuery e < EndpointLatencyRequestInterval env then (e, [])
            else (let e1 = e\<lparr>LastLatencyQuery := now\<rparr>
                  in (case addrToBytes e1 of
                      None \<Rightarrow> (e1, [])
                    | Some ba \<Rightarrow>
                        (let payload = LatencyRequestHeader env @ ba @ bytes_of pid @
                                       MarshalBinary env now
                         in (case CreateMessageStatic env payload of
                               Inl err \<Rightarrow> (e1\<lparr>LastLatencyQuery := now\<rparr>, [])
                             | Inr msg \<Rightarrow> (e1, [(msg, addr)])))))))"

text \<open>Calls of \<open>Measure\<close> on one endpoint at the given clock readings, in that order:
  the messages sent, each with the reading at which it was sent.\<close>

fun Measure_run ::
  "'msg latency_env \<Rightarrow> Network option \<Rightarrow> string \<Rightarrow> int list \<Rightarrow> Endpoint
     \<Rightarrow> (int \<times> 'msg \<times> UDPAddr) list" where
  "Measure_run env n pid [] e = []"
| "Measure_run env n pid (now # later) e =
     (case Measure env now n pid e of
        (e', sent) \<Rightarrow> map (\<lambda>m. (now, m)) sent @ Measure_run env n pid later e')"

text \<open>For the concrete runs: an interval of 1000 units, a message that is its payload,
  and an endpoint at 192.0.2.7:6881 that was last queried at time 0.\<close>

definition example_latency_env :: "byte list latency_env" where
  "example_latency_env =
     \<lparr>EndpointLatencyRequestInterval = 1000, LatencyRequestHeader = [76, 65, 84],
      MarshalBinary = (\<lambda>t. []), CreateMessageStatic = (\<lambda>payload. Inr payload)\<rparr>"

definition example_Endpoint :: "bool \<Rightarrow> Endpoint" where
  "example_Endpoint b =
     \<lparr>Addr = Some \<lparr>udp_IP = [192,0,2,7], udp_Port = 6881\<rparr>, LastContact = 0, LastPing = 0,
      broken = b, Latency = 0, LastLatencyQuery = 0\<rparr>"

section \<open>Construction of an instance\<close>

text \<open>What \<open>New\<close> takes from outside these sources: the parsers \<open>net.ParseMAC\<close> and
  \<open>net.ParseIP\<close>, the six bytes that \<open>rand.Read\<close> delivers (\<open>None\<close> when it fails), the
  path \<open>GetConfigurationTool\<close> finds, the port the socket is bound to, the port the echo
  server reports within three seconds (0 when it does not), and the result of
  \<open>Dht.Init\<close> for the swarm hash.\<close>

record new_env =
  ParseMAC :: "string \<Rightarrow> error + byte list"
  ParseIP :: "string \<Rightarrow> byte list option"
  randRead :: "byte list option"
  configurationTool :: string
  boundPort :: int
  echoedPort :: int
  dhtInit :: "string \<Rightarrow> error + DHTClient"

text \<open>\<open>GenerateMAC\<close>: the text and the parsed address. The first byte of the buffer is
  OR'd with 2 and then not used: the text starts with the literal \<open>06:\<close> and goes on
  with the bytes 1 to 5 of the buffer, each as \<open>%02x\<close>.\<close>

definition GenerateMAC ::
  "(string \<Rightarrow> error + byte list) \<Rightarrow> byte list option \<Rightarrow> string \<times> byte list option" where
  "GenerateMAC parseMAC rnd =
     (case rnd of
        None \<Rightarrow> ([], None)
      | Some buf0 \<Rightarrow>
          (let buf = buf0[0 := (buf0 ! 0) OR 2];
               mac = ''06:'' @ hex2 (buf ! 1) @ '':'' @ hex2 (buf ! 2) @ '':'' @ hex2 (buf ! 3) @
                     '':'' @ hex2 (buf ! 4) @ '':'' @ hex2 (buf ! 5)
           in (case parseMAC mac of
                 Inl err \<Rightarrow> ([], None)
               | Inr hw \<Rightarrow> (mac, Some hw))))"

definition validateMac ::
  "(string \<Rightarrow> error + byte list) \<Rightarrow> byte list option \<Rightarrow> string \<Rightarrow> byte list option" where
  "validateMac parseMAC rnd mac =
     (if mac \<noteq> []
      then (case parseMAC mac of Inl err \<Rightarrow> None | Inr hw \<Rightarrow> Some hw)
      else snd (GenerateMAC parseMAC rnd))"

definition newTAP ::
  "(string \<Rightarrow> byte list option) \<Rightarrow> (string \<Rightarrow> error + byte list) \<Rightarrow> string \<Rightarrow> string \<Rightarrow> string
     \<Rightarrow> error + TAP" where
  "newTAP parseIP parseMAC tool ip mac =
     (case parseIP ip of
        None \<Rightarrow> Inl (Errorf ''Failed to parse IP during TAP creation'')
      | Some nip \<Rightarrow>
          (case parseMAC mac of
             Inl err \<Rightarrow> Inl (Errorf (''Failed to parse MAC during TAP creation: '' @ error_text err))
           | Inr nmac \<Rightarrow>
               Inr \<lparr>tap_IP = Some nip, Subnet = None, Mac = Some nmac, Name = [], Tool = tool,
                    file_open = False, Configured = False, Auto = False\<rparr>))"

text \<open>\<open>New\<close>: \<open>None\<close> is the nil instance. The key material, the handler tables and
  the relay manager, which no claim here reads, are left out of the instance record;
  none of them makes \<open>New\<close> return nil.\<close>

definition New ::
  "new_env \<Rightarrow> string \<Rightarrow> string \<Rightarrow> bool \<Rightarrow> byte list option \<Rightarrow> PeerToPeer option" where
  "New env mac hash fwd outbound =
     (case newTAP (ParseIP env) (ParseMAC env) (configurationTool env)
             ''127.0.0.1'' ''00:00:00:00:00:00'' of
        Inl err \<Rightarrow> None
      | Inr tap \<Rightarrow>
          (let iface = tap\<lparr>Mac := validateMac (ParseMAC env) (randRead env) mac\<rparr>;
               sock = \<lparr>remotePort = (if echoedPort env = 0 then boundPort env else echoedPort env),
                       localPort = boundPort env\<rparr>
           in (case dhtInit env hash of
                 Inl err \<Rightarrow> None
               | Inr dht \<Rightarrow>
                   Some \<lparr>UDPSocket = Some sock, Dht = Some dht, Shutdown = False,
                         ForwardMode = fwd, ReadyToStop = False, Hash = hash,
                         Interface = Some iface, Swarm = Some Init, outboundIP = outbound\<rparr>)))"

text \<open>\<open>AssignInterface\<close>, with the process-wide list \<open>ActiveInterfaces\<close> passed along.
  Opening the device file is the parameter \<open>openFile\<close> (its error, if any).\<close>

definition TAP_Configure :: "TAP \<Rightarrow> error option" where
  "TAP_Configure t =
     (if Tool t = [] then Some (Errorf ''TAP.Configure: Configuration tool wasn't specified'')
      else None)"

definition AssignInterface ::
  "(string \<Rightarrow> error option) \<Rightarrow> string \<Rightarrow> PeerToPeer \<times> byte list option list
     \<Rightarrow> error option \<times> PeerToPeer \<times> byte list option list" where
  "AssignInterface openFile interfaceName st =
     (case st of (p, active) \<Rightarrow>
        (case Interface p of
           None \<Rightarrow> (Some (Errorf ''Failed to initialize TAP''), p, active)
         | Some t \<Rightarrow>
             if Configured t then (None, p, active)
             else if interfaceName = []
             then (Some (Errorf ''Failed to initialize TAP: Failed to configure interface: empty name''),
                   p, active)
             else (let t1 = t\<lparr>Name := interfaceName\<rparr>; p1 = p\<lparr>Interface := Some t1\<rparr>
                   in if tap_IP t1 = None \<and> \<not> Auto t1 then (Some (Errorf ''No IP provided''), p1, active)
                      else if Mac t1 = None
                      then (Some (Errorf ''No Hardware address provided''), p1, active)
                      else (case openFile (''/dev/'' @ Name t1) of
                          Some err \<Rightarrow> (Some err, p1, active)
                        | None \<Rightarrow>
                            (let t2 = t1\<lparr>file_open := True\<rparr>; p2 = p\<lparr>Interface := Some t2\<rparr>
                             in (case TAP_Configure t2 of
                                   Some err \<Rightarrow> (Some err, p2, active)
                                 | None \<Rightarrow>
                                     (let active' = active @ [tap_IP t2];
                                          t3 = (if \<not> Auto t2 then t2\<lparr>Configured := True\<rparr> else t2)
                                      in (None, p\<lparr>Interface := Some t3\<rparr>, active'))))))))"

text \<open>For the concrete runs: parsers that know the texts that occur there, a buffer of
  random bytes, and a rendezvous client that initialises.\<close>

definition example_new_env :: new_env where
  "example_new_env =
     \<lparr>ParseMAC = (\<lambda>s. if s = ''00:00:00:00:00:00'' then Inr [0,0,0,0,0,0]
                      else if s = ''06:a1:02:03:04:ff'' then Inr [6,161,2,3,4,255]
                      else Inl (Errorf (''address '' @ s @ '': invalid MAC address''))),
      ParseIP = (\<lambda>s. if s = ''127.0.0.1'' then Some [127,0,0,1] else None),
      randRead = Some [77,161,2,3,4,255],
      configurationTool = ''/sbin/ifconfig'',
      boundPort = 6881,
      echoedPort = 0,
      dhtInit = (\<lambda>h. Inr \<lparr>NetworkHash = h, dht_ID = []\<rparr>)\<rparr>"

section \<open>Shutdown\<close>



text \<open>\<open>net.IP.Equal\<close>: the same bytes, or a four-byte address and its sixteen-byte
  form with the IPv4-in-IPv6 prefix. A nil address has length 0.\<close>

definition v4InV6Prefix :: "byte list" where
  "v4InV6Prefix = replicate 10 0 @ [255, 255]"

definition IP_Equal :: "byte list option \<Rightarrow> byte list option \<Rightarrow> bool" where
  "IP_Equal a b =
     (let ip = (case a of None \<Rightarrow> [] | Some bs \<Rightarrow> bs);
          x = (case b of None \<Rightarrow> [] | Some bs \<Rightarrow> bs)
      in if length ip = length x then ip = x
         else if length ip = 4 \<and> length x = 16 then take 12 x = v4InV6Prefix \<and> ip = drop 12 x
         else if length ip = 16 \<and> length x = 4 then take 12 ip = v4InV6Prefix \<and> drop 12 ip = x
         else False)"

text \<open>The index of the first registered address equal to \<open>ip\<close>.\<close>

fun Equal_index :: "byte list option \<Rightarrow> byte list option list \<Rightarrow> nat option" where
  "Equal_index ip [] = None"
| "Equal_index ip (a # rest) =
     (if IP_Equal a ip then Some 0 else map_option Suc (Equal_index ip rest))"













section \<open>Auto-IP reconciliation: probing for a free address\<close>

text \<open>The second loop of \<open>discoverIP\<close>, entered once the subnet \<open>sn\<close> is known. The
  interface's IP is set by the handler of \<open>COMM\<close> messages, which runs beside this loop
  and is outside these sources: \<open>ipNil n\<close> says whether \<open>GetIP\<close> is still nil when the
  loop condition is read for the \<open>n\<close>-th time. Times are in milliseconds since the Unix
  epoch; each sleep takes 100 ms of the clock and nothing else takes time. A query
  goes to every connected peer that has an endpoint; the log keeps the time of each
  query and the candidate address it names. The check after the loop sees what the
  last reading of the loop condition saw. A subnet of fewer than three bytes makes the
  first query index out of range.\<close>

definition candidate :: "byte list \<Rightarrow> int \<Rightarrow> byte list" where
  "candidate sn i = [sn ! 0, sn ! 1, sn ! 2, of_int i]"

function discoverIP_loop ::
  "(nat \<Rightarrow> bool) \<Rightarrow> byte list \<Rightarrow> nat \<Rightarrow> int \<Rightarrow> int \<Rightarrow> int \<Rightarrow> error option \<times> (int \<times> byte list) list" where
  "discoverIP_loop ipNil sn n now i lastRequest =
     (if ipNil n \<and> i > 0
      then (if now - lastRequest > 1500
            then (if length sn < 3 then (Some (Panic ''index out of range''), [])
                  else (case discoverIP_loop ipNil sn (Suc n) (now + 100) (i - 1) now of
                          (r, queries) \<Rightarrow> (r, (now, candidate sn (i - 1)) # queries)))
            else discoverIP_loop ipNil sn (Suc n) (now + 100) i lastRequest)
      else (if ipNil n then Some (Errorf ''Failed to get free IP for this swarm'') else None, []))"
  by pat_completeness auto
termination
  by (relation "measure (\<lambda>(ipNil, sn, n, now, i, lastRequest).
        nat i * 1502 + nat (lastRequest + 1501 - now))") auto


text \<open>For the concrete run: no peer answer ever sets the interface's IP.\<close>

definition never_assigned :: "nat \<Rightarrow> bool" where
  "never_assigned n = True"


section \<open>Swarm table: index consistency\<close>

lemma operate_Update_maps:
  "snd (operate ipStr OperateUpdate pid (Some p) \<lparr>peers = Some m, tableIPID = Some t, tableMacID = Some u\<rparr>) =
     \<lparr>peers = Some (m(pid \<mapsto> p)),
      tableIPID = Some (if ipkey ipStr p \<noteq> [] then t(ipkey ipStr p \<mapsto> pid) else t),
      tableMacID = Some (if mackey p \<noteq> [] then u(mackey p \<mapsto> pid) else u)\<rparr>"
  by (simp add: operate_def updateTables_def ipkey_def mackey_def Let_def)

lemma operate_Delete_maps:
  "snd (operate ipStr OperateDelete pid None \<lparr>peers = Some m, tableIPID = Some t, tableMacID = Some u\<rparr>) =
     (case m pid of
        None \<Rightarrow> \<lparr>peers = Some m, tableIPID = Some t, tableMacID = Some u\<rparr>
      | Some p \<Rightarrow>
         \<lparr>peers = Some (m(pid := None)),
          tableIPID = Some (if IP_String ipStr (PeerLocalIP p) \<noteq> [] then t(IP_String ipStr (PeerLocalIP p) := None) else t),
          tableMacID = Some (if HardwareAddr_String (PeerHW p) \<noteq> [] then u(HardwareAddr_String (PeerHW p) := None) else u)\<rparr>)"
  by (auto simp: operate_def deleteTables_def map_get_def Let_def fun_upd_idem split: option.splits)









lemma ipkey_peer_with: "ipkey ipStr (peer_with ip mac st) = ipStr ip"
  by (simp add: ipkey_def peer_with_def IP_String_def)

lemma mackey_peer_with: "mackey (peer_with ip mac st) = hex_colon mac"
  by (simp add: mackey_def peer_with_def HardwareAddr_String_def)

lemma peer_with_sel:
  "PeerLocalIP (peer_with ip mac st) = Some ip" "PeerHW (peer_with ip mac st) = Some mac"
  "Endpoint (peer_with ip mac st) = None" "State (peer_with ip mac st) = st"
  by (simp_all add: peer_with_def)

lemmas run_eval =
  Init_def Update_def Delete_def operate_Update_maps operate_Delete_maps
  ipkey_peer_with mackey_peer_with peer_with_sel IP_String_def HardwareAddr_String_def
  hex2_def hexdigit_def dec_byte_def decdigit_def map_get_def




section \<open>Swarm table: deletion\<close>

lemma operate_Delete_fst:
  "fst (operate ipStr OperateDelete pid None \<lparr>peers = Some m, tableIPID = Some t, tableMacID = Some u\<rparr>) =
     (case m pid of None \<Rightarrow> Some (Errorf ''can't delete peer: entry doesn't exists'') | Some p \<Rightarrow> None)"
  by (simp add: operate_def map_get_def Let_def split: option.splits)

text \<open>
  Claim C8, as amended. Deleting an identifier that is not in the table leaves the
  table as it is, and \<open>operate\<close> returns an error (on an initialised table the error
  that the entry does not exist); the public \<open>Delete\<close> returns nothing to its caller.
  Deleting an identifier that is in an initialised table removes it, leaves every
  other identifier in place, and \<open>operate\<close> returns no error.
\<close>

theorem Swarm_Delete_outcome:
  "(GetPeer l pid = None \<longrightarrow>
      snd (operate ipStr OperateDelete pid None l) = l \<and>
      fst (operate ipStr OperateDelete pid None l) \<noteq> None \<and>
      Delete ipStr pid l = ((), l)) \<and>
   (GetPeer l pid = None \<and> peers l \<noteq> None \<and> tableIPID l \<noteq> None \<and> tableMacID l \<noteq> None \<longrightarrow>
      fst (operate ipStr OperateDelete pid None l) =
        Some (Errorf ''can't delete peer: entry doesn't exists'')) \<and>
   (GetPeer l pid \<noteq> None \<and> tableIPID l \<noteq> None \<and> tableMacID l \<noteq> None \<longrightarrow>
      fst (operate ipStr OperateDelete pid None l) = None \<and>
      GetPeer (snd (Delete ipStr pid l)) pid = None \<and>
      (\<forall>q. q \<noteq> pid \<longrightarrow> GetPeer (snd (Delete ipStr pid l)) q = GetPeer l q))"
proof (intro conjI impI)
  assume a: "GetPeer l pid = None"
  then show "snd (operate ipStr OperateDelete pid None l) = l"
    and "fst (operate ipStr OperateDelete pid None l) \<noteq> None"
    and "Delete ipStr pid l = ((), l)"
    by (simp_all add: GetPeer_def operate_def Delete_def)
next
  assume "GetPeer l pid = None \<and> peers l \<noteq> None \<and> tableIPID l \<noteq> None \<and> tableMacID l \<noteq> None"
  then show "fst (operate ipStr OperateDelete pid None l) =
        Some (Errorf ''can't delete peer: entry doesn't exists'')"
    by (simp add: GetPeer_def operate_def)
next
  assume a: "GetPeer l pid \<noteq> None \<and> tableIPID l \<noteq> None \<and> tableMacID l \<noteq> None"
  then obtain m t u p where l: "l = \<lparr>peers = Some m, tableIPID = Some t, tableMacID = Some u\<rparr>"
    and mp: "m pid = Some p"
    by (cases l) (auto simp: GetPeer_def map_get_def split: option.splits)
  show "fst (operate ipStr OperateDelete pid None l) = None"
    by (simp add: l operate_def map_get_def mp Let_def)
  show "GetPeer (snd (Delete ipStr pid l)) pid = None"
    by (simp add: l Delete_def operate_Delete_maps mp GetPeer_def map_get_def)
  show "\<forall>q. q \<noteq> pid \<longrightarrow> GetPeer (snd (Delete ipStr pid l)) q = GetPeer l q"
    by (simp add: l Delete_def operate_Delete_maps mp GetPeer_def map_get_def)
qed

theorem Swarm_Delete_outcome_witness:
  "snd (operate dotted OperateDelete ''x'' None
          (snd (Update dotted ''a'' (peer_with [10,1,0,5] [6,0,0,0,0,1] PeerStateInit) Init))) =
     snd (Update dotted ''a'' (peer_with [10,1,0,5] [6,0,0,0,0,1] PeerStateInit) Init) \<and>
   fst (operate dotted OperateDelete ''x'' None
          (snd (Update dotted ''a'' (peer_with [10,1,0,5] [6,0,0,0,0,1] PeerStateInit) Init))) =
     Some (Errorf ''can't delete peer: entry doesn't exists'') \<and>
   fst (operate dotted OperateDelete ''a'' None
          (snd (Update dotted ''a'' (peer_with [10,1,0,5] [6,0,0,0,0,1] PeerStateInit) Init))) = None \<and>
   GetPeer (snd (Delete dotted ''a''
          (snd (Update dotted ''a'' (peer_with [10,1,0,5] [6,0,0,0,0,1] PeerStateInit) Init)))) ''a'' = None"
proof -
  define s where "s = snd (Update dotted ''a'' (peer_with [10,1,0,5] [6,0,0,0,0,1] PeerStateInit) Init)"
  have s: "s = \<lparr>peers = Some [''a'' \<mapsto> peer_with [10,1,0,5] [6,0,0,0,0,1] PeerStateInit],
     tableIPID = Some [''10.1.0.5'' \<mapsto> ''a''], tableMacID = Some [''06:00:00:00:00:01'' \<mapsto> ''a'']\<rparr>"
    unfolding s_def by (simp add: run_eval)
  have x: "GetPeer s ''x'' = None" "peers s \<noteq> None" "tableIPID s \<noteq> None" "tableMacID s \<noteq> None"
    unfolding s by (simp_all add: GetPeer_def map_get_def)
  have a: "GetPeer s ''a'' \<noteq> None"
    unfolding s by (simp add: GetPeer_def map_get_def)
  have "snd (operate dotted OperateDelete ''x'' None s) = s \<and>
        fst (operate dotted OperateDelete ''x'' None s) = Some (Errorf ''can't delete peer: entry doesn't exists'') \<and>
        fst (operate dotted OperateDelete ''a'' None s) = None \<and>
        GetPeer (snd (Delete dotted ''a'' s)) ''a'' = None"
    using Swarm_Delete_outcome [of s "''x''" dotted] Swarm_Delete_outcome [of s "''a''" dotted] x a
    by simp
  then show ?thesis unfolding s_def .
qed

text \<open>The claim as written fails: \<open>operate\<close> tells a missing entry from a removed
  one, the public \<open>Delete\<close> returns the same to its caller in both cases.\<close>

theorem Swarm_Delete_silent_counterexample:
  "fst (operate dotted OperateDelete ''x'' None Init) \<noteq>
     fst (operate dotted OperateDelete ''x'' None
            (snd (Update dotted ''x'' (peer_with [10,1,0,5] [6,0,0,0,0,1] PeerStateInit) Init))) \<and>
   fst (Delete dotted ''x'' Init) =
     fst (Delete dotted ''x''
            (snd (Update dotted ''x'' (peer_with [10,1,0,5] [6,0,0,0,0,1] PeerStateInit) Init)))"
proof -
  have 1: "fst (operate dotted OperateDelete ''x'' None Init) =
     Some (Errorf ''can't delete peer: entry doesn't exists'')"
    by (simp add: Init_def operate_Delete_fst)
  have 2: "fst (operate dotted OperateDelete ''x'' None
            (snd (Update dotted ''x'' (peer_with [10,1,0,5] [6,0,0,0,0,1] PeerStateInit) Init))) = None"
    by (simp add: Init_def Update_def operate_Update_maps operate_Delete_fst)
  show ?thesis unfolding 1 2 by simp
qed

section \<open>SendTo\<close>

lemma GetEndpoint_unresolvable:
  "unresolvable sw mac \<longleftrightarrow> (\<exists>e. GetEndpoint sw (HardwareAddr_String (Some mac)) = Inl e)"
  by (auto simp: unresolvable_def GetEndpoint_def split: option.splits)

text \<open>
  Claim C10. On an instance that has its swarm table and its socket, \<open>SendTo\<close> with a
  message that is not nil returns 0 bytes and no error for every destination hardware
  address that is not resolvable through the table (unknown MAC, unknown identifier, or
  a peer with no endpoint), which is also what it returns when an endpoint was found
  and the send wrote 0 bytes; and it returns a transport error only when an endpoint
  was found and the send on the socket returned that error.
\<close>

theorem SendTo_unresolvable_drop:
  assumes "Swarm p = Some sw" "UDPSocket p = Some sock"
  shows "(unresolvable sw mac \<longrightarrow> SendTo sendMessage p (Some mac) (Some m) = (0, None)) \<and>
         (\<forall>n x. SendTo sendMessage p (Some mac) (Some m) = (n, Some (TransportError x)) \<longrightarrow>
            (\<exists>ep. GetEndpoint sw (HardwareAddr_String (Some mac)) = Inr ep \<and>
                  sendMessage m ep = (n, Some (TransportError x)))) \<and>
         (\<forall>ep. GetEndpoint sw (HardwareAddr_String (Some mac)) = Inr ep \<and> sendMessage m ep = (0, None) \<longrightarrow>
            SendTo sendMessage p (Some mac) (Some m) = (0, None))"
proof (intro conjI allI impI)
  assume "unresolvable sw mac"
  then obtain e where "GetEndpoint sw (HardwareAddr_String (Some mac)) = Inl e"
    unfolding GetEndpoint_unresolvable by blast
  then show "SendTo sendMessage p (Some mac) (Some m) = (0, None)"
    using assms by (simp add: SendTo_def)
next
  fix n x
  assume a: "SendTo sendMessage p (Some mac) (Some m) = (n, Some (TransportError x))"
  show "\<exists>ep. GetEndpoint sw (HardwareAddr_String (Some mac)) = Inr ep \<and>
                  sendMessage m ep = (n, Some (TransportError x))"
  proof (cases "GetEndpoint sw (HardwareAddr_String (Some mac))")
    case (Inl e)
    with a assms show ?thesis by (simp add: SendTo_def)
  next
    case (Inr ep)
    with a assms show ?thesis by (simp add: SendTo_def)
  qed
next
  fix ep
  assume "GetEndpoint sw (HardwareAddr_String (Some mac)) = Inr ep \<and> sendMessage m ep = (0, None)"
  then show "SendTo sendMessage p (Some mac) (Some m) = (0, None)"
    using assms by (simp add: SendTo_def)
qed

theorem SendTo_unresolvable_drop_witness:
  "unresolvable
     (run_ops dotted [OpUpdate ''a'' (peer_with [10,1,0,5] [6,0,0,0,0,1] PeerStateConnected)] Init)
     [6,0,0,0,0,1] \<and>
   SendTo (\<lambda>m ep. (int (length m), None))
     (instance_with
        (run_ops dotted [OpUpdate ''a'' (peer_with [10,1,0,5] [6,0,0,0,0,1] PeerStateConnected)] Init))
     (Some [6,0,0,0,0,1]) (Some [1,2,3::byte]) = (0, None) \<and>
   unresolvable
     (run_ops dotted [OpUpdate ''a'' (peer_with [10,1,0,5] [6,0,0,0,0,1] PeerStateConnected)] Init)
     [6,0,0,0,0,9] \<and>
   SendTo (\<lambda>m ep. (int (length m), None))
     (instance_with
        (run_ops dotted [OpUpdate ''a'' (peer_with [10,1,0,5] [6,0,0,0,0,1] PeerStateConnected)] Init))
     (Some [6,0,0,0,0,9]) (Some [1,2,3::byte]) = (0, None)"
proof -
  define sw where
    "sw = run_ops dotted [OpUpdate ''a'' (peer_with [10,1,0,5] [6,0,0,0,0,1] PeerStateConnected)] Init"
  define snd_msg :: "byte list \<Rightarrow> UDPAddr \<Rightarrow> int \<times> error option"
    where "snd_msg = (\<lambda>m ep. (int (length m), None))"
  have sw: "sw = \<lparr>peers = Some [''a'' \<mapsto> peer_with [10,1,0,5] [6,0,0,0,0,1] PeerStateConnected],
     tableIPID = Some [''10.1.0.5'' \<mapsto> ''a''], tableMacID = Some [''06:00:00:00:00:01'' \<mapsto> ''a'']\<rparr>"
    unfolding sw_def by (simp add: run_eval)
  have u1: "unresolvable sw [6,0,0,0,0,1]"
    unfolding sw by (simp add: unresolvable_def run_eval)
  have u9: "unresolvable sw [6,0,0,0,0,9]"
    unfolding sw by (simp add: unresolvable_def run_eval)
  have p: "Swarm (instance_with sw) = Some sw"
    "UDPSocket (instance_with sw) = Some \<lparr>remotePort = 6881, localPort = 6881\<rparr>"
    by (simp_all add: instance_with_def)
  from SendTo_unresolvable_drop [OF p, of "[6,0,0,0,0,1]" snd_msg "[1,2,3]"] u1
  have r1: "SendTo snd_msg (instance_with sw) (Some [6,0,0,0,0,1]) (Some [1,2,3]) = (0, None)"
    by simp
  from SendTo_unresolvable_drop [OF p, of "[6,0,0,0,0,9]" snd_msg "[1,2,3]"] u9
  have r9: "SendTo snd_msg (instance_with sw) (Some [6,0,0,0,0,9]) (Some [1,2,3]) = (0, None)"
    by simp
  from u1 r1 u9 r9 show ?thesis unfolding sw_def snd_msg_def by simp
qed

section \<open>removeStoppedPeers\<close>

lemma Get_Delete:
  assumes "tableIPID l \<noteq> None" "tableMacID l \<noteq> None" "Get l pid \<noteq> None"
  shows "Get (snd (Delete ipStr pid l)) = (Get l)(pid := None)"
    and "tableIPID (snd (Delete ipStr pid l)) \<noteq> None"
    and "tableMacID (snd (Delete ipStr pid l)) \<noteq> None"
proof -
  from assms obtain m t u p where l: "l = \<lparr>peers = Some m, tableIPID = Some t, tableMacID = Some u\<rparr>"
    and mp: "m pid = Some p"
    by (cases l) (auto simp: Get_def split: option.splits)
  show "Get (snd (Delete ipStr pid l)) = (Get l)(pid := None)"
    and "tableIPID (snd (Delete ipStr pid l)) \<noteq> None"
    and "tableMacID (snd (Delete ipStr pid l)) \<noteq> None"
    by (simp_all add: l Delete_def operate_Delete_maps mp Get_def)
qed

lemma removeStoppedPeers_range_cases:
  "(removeStoppedPeers_range ipStr snap order l = l \<and>
      (\<forall>pid \<in> set order. \<forall>peer. snap pid = Some peer \<longrightarrow> State peer \<noteq> PeerStateStop)) \<or>
   (\<exists>pid \<in> set order. \<exists>peer. snap pid = Some peer \<and> State peer = PeerStateStop \<and>
      removeStoppedPeers_range ipStr snap order l = snd (Delete ipStr pid l))"
proof (induction order)
  case Nil
  then show ?case by simp
next
  case (Cons pid rest)
  show ?case
  proof (cases "snap pid")
    case None
    with Cons show ?thesis by auto
  next
    case (Some peer)
    show ?thesis
    proof (cases "State peer = PeerStateStop")
      case True
      with Some show ?thesis by auto
    next
      case False
      with Some Cons show ?thesis by auto
    qed
  qed
qed

lemma stopped_empty_iff:
  "stopped sw = {} \<longleftrightarrow> (\<forall>pid \<in> dom (Get sw). \<forall>peer. Get sw pid = Some peer \<longrightarrow> State peer \<noteq> PeerStateStop)"
  by (auto simp: stopped_def)

lemma removeStoppedPeers_range_one:
  assumes "tableIPID sw \<noteq> None" "tableMacID sw \<noteq> None" "set order = dom (Get sw)"
  shows "(stopped sw = {} \<longrightarrow> removeStoppedPeers_range ipStr (Get sw) order sw = sw) \<and>
         (stopped sw \<noteq> {} \<longrightarrow>
            (\<exists>pid \<in> stopped sw.
               Get (removeStoppedPeers_range ipStr (Get sw) order sw) = (Get sw)(pid := None) \<and>
               tableIPID (removeStoppedPeers_range ipStr (Get sw) order sw) \<noteq> None \<and>
               tableMacID (removeStoppedPeers_range ipStr (Get sw) order sw) \<noteq> None))"
proof -
  from removeStoppedPeers_range_cases [of ipStr "Get sw" order sw]
  show ?thesis
  proof
    assume a: "removeStoppedPeers_range ipStr (Get sw) order sw = sw \<and>
      (\<forall>pid \<in> set order. \<forall>peer. Get sw pid = Some peer \<longrightarrow> State peer \<noteq> PeerStateStop)"
    then have "stopped sw = {}" unfolding stopped_empty_iff assms(3) by blast
    with a show ?thesis by simp
  next
    assume "\<exists>pid \<in> set order. \<exists>peer. Get sw pid = Some peer \<and> State peer = PeerStateStop \<and>
      removeStoppedPeers_range ipStr (Get sw) order sw = snd (Delete ipStr pid sw)"
    then obtain pid peer where pp: "Get sw pid = Some peer" "State peer = PeerStateStop"
      and r: "removeStoppedPeers_range ipStr (Get sw) order sw = snd (Delete ipStr pid sw)" by blast
    from pp have s: "pid \<in> stopped sw" by (auto simp: stopped_def)
    from pp have ne: "Get sw pid \<noteq> None" by simp
    from Get_Delete [OF assms(1,2) ne, of ipStr] r s show ?thesis by auto
  qed
qed

lemma stopped_after_removal:
  "Get sw' = (Get sw)(pid := None) \<Longrightarrow> stopped sw' = stopped sw - {pid}"
  by (auto simp: stopped_def)

text \<open>
  Claim C2, as amended. One call of \<open>removeStoppedPeers\<close> on an instance with an
  initialised table, whatever the order in which the snapshot is visited: when no peer
  is in state \<open>PeerStateStop\<close> the table is unchanged; when some are, exactly one of them
  is removed from the table and every other peer stays, the other stopped peers
  included.
\<close>

theorem removeStoppedPeers_one_per_tick:
  assumes "Swarm p = Some sw" "tableIPID sw \<noteq> None" "tableMacID sw \<noteq> None"
    and "set order = dom (Get sw)"
  shows "\<exists>sw'. removeStoppedPeers ipStr order p = (None, p\<lparr>Swarm := Some sw'\<rparr>) \<and>
           (stopped sw = {} \<longrightarrow> sw' = sw) \<and>
           (stopped sw \<noteq> {} \<longrightarrow>
              (\<exists>pid \<in> stopped sw. Get sw' = (Get sw)(pid := None) \<and>
                                   stopped sw' = stopped sw - {pid}))"
proof -
  let ?sw' = "removeStoppedPeers_range ipStr (Get sw) order sw"
  have 1: "removeStoppedPeers ipStr order p = (None, p\<lparr>Swarm := Some ?sw'\<rparr>)"
    using assms(1) by (simp add: removeStoppedPeers_def)
  from removeStoppedPeers_range_one [OF assms(2,3,4), of ipStr]
  have 2: "stopped sw = {} \<longrightarrow> ?sw' = sw"
    and 3: "stopped sw \<noteq> {} \<longrightarrow> (\<exists>pid \<in> stopped sw. Get ?sw' = (Get sw)(pid := None))"
    by blast+
  from 3 have 4: "stopped sw \<noteq> {} \<longrightarrow>
      (\<exists>pid \<in> stopped sw. Get ?sw' = (Get sw)(pid := None) \<and> stopped ?sw' = stopped sw - {pid})"
    using stopped_after_removal by blast
  from 1 2 4 show ?thesis by blast
qed

theorem removeStoppedPeers_one_per_tick_witness:
  "Swarm (instance_with (run_ops dotted
      [OpUpdate ''a'' (peer_with [10,1,0,5] [6,0,0,0,0,1] PeerStateStop),
       OpUpdate ''b'' (peer_with [10,1,0,6] [6,0,0,0,0,2] PeerStateStop),
       OpUpdate ''c'' (peer_with [10,1,0,7] [6,0,0,0,0,3] PeerStateConnected)] Init)) =
     Some (run_ops dotted
      [OpUpdate ''a'' (peer_with [10,1,0,5] [6,0,0,0,0,1] PeerStateStop),
       OpUpdate ''b'' (peer_with [10,1,0,6] [6,0,0,0,0,2] PeerStateStop),
       OpUpdate ''c'' (peer_with [10,1,0,7] [6,0,0,0,0,3] PeerStateConnected)] Init) \<and>
   set [''c'', ''b'', ''a''] = dom (Get (run_ops dotted
      [OpUpdate ''a'' (peer_with [10,1,0,5] [6,0,0,0,0,1] PeerStateStop),
       OpUpdate ''b'' (peer_with [10,1,0,6] [6,0,0,0,0,2] PeerStateStop),
       OpUpdate ''c'' (peer_with [10,1,0,7] [6,0,0,0,0,3] PeerStateConnected)] Init)) \<and>
   ''a'' \<in> stopped (run_ops dotted
      [OpUpdate ''a'' (peer_with [10,1,0,5] [6,0,0,0,0,1] PeerStateStop),
       OpUpdate ''b'' (peer_with [10,1,0,6] [6,0,0,0,0,2] PeerStateStop),
       OpUpdate ''c'' (peer_with [10,1,0,7] [6,0,0,0,0,3] PeerStateConnected)] Init) \<and>
   (\<exists>sw' pid. removeStoppedPeers dotted [''c'', ''b'', ''a'']
        (instance_with (run_ops dotted
          [OpUpdate ''a'' (peer_with [10,1,0,5] [6,0,0,0,0,1] PeerStateStop),
           OpUpdate ''b'' (peer_with [10,1,0,6] [6,0,0,0,0,2] PeerStateStop),
           OpUpdate ''c'' (peer_with [10,1,0,7] [6,0,0,0,0,3] PeerStateConnected)] Init)) =
        (None, (instance_with (run_ops dotted
          [OpUpdate ''a'' (peer_with [10,1,0,5] [6,0,0,0,0,1] PeerStateStop),
           OpUpdate ''b'' (peer_with [10,1,0,6] [6,0,0,0,0,2] PeerStateStop),
           OpUpdate ''c'' (peer_with [10,1,0,7] [6,0,0,0,0,3] PeerStateConnected)] Init))
              \<lparr>Swarm := Some sw'\<rparr>) \<and>
      Get sw' = (Get (run_ops dotted
          [OpUpdate ''a'' (peer_with [10,1,0,5] [6,0,0,0,0,1] PeerStateStop),
           OpUpdate ''b'' (peer_with [10,1,0,6] [6,0,0,0,0,2] PeerStateStop),
           OpUpdate ''c'' (peer_with [10,1,0,7] [6,0,0,0,0,3] PeerStateConnected)] Init))(pid := None))"
proof -
  define S where "S = run_ops dotted
      [OpUpdate ''a'' (peer_with [10,1,0,5] [6,0,0,0,0,1] PeerStateStop),
       OpUpdate ''b'' (peer_with [10,1,0,6] [6,0,0,0,0,2] PeerStateStop),
       OpUpdate ''c'' (peer_with [10,1,0,7] [6,0,0,0,0,3] PeerStateConnected)] Init"
  have S: "S = \<lparr>peers = Some [''a'' \<mapsto> peer_with [10,1,0,5] [6,0,0,0,0,1] PeerStateStop,
                            ''b'' \<mapsto> peer_with [10,1,0,6] [6,0,0,0,0,2] PeerStateStop,
                            ''c'' \<mapsto> peer_with [10,1,0,7] [6,0,0,0,0,3] PeerStateConnected],
     tableIPID = Some [''10.1.0.5'' \<mapsto> ''a'', ''10.1.0.6'' \<mapsto> ''b'', ''10.1.0.7'' \<mapsto> ''c''],
     tableMacID = Some [''06:00:00:00:00:01'' \<mapsto> ''a'', ''06:00:00:00:00:02'' \<mapsto> ''b'',
                        ''06:00:00:00:00:03'' \<mapsto> ''c'']\<rparr>"
    unfolding S_def by (simp add: run_eval)
  have h1: "Swarm (instance_with S) = Some S" by (simp add: instance_with_def)
  have h2: "tableIPID S \<noteq> None" "tableMacID S \<noteq> None" unfolding S by simp_all
  have h3: "set [''c'', ''b'', ''a''] = dom (Get S)" unfolding S by (auto simp: Get_def)
  have h4: "''a'' \<in> stopped S" unfolding S by (simp add: stopped_def Get_def peer_with_sel)
  then have ne: "stopped S \<noteq> {}" by blast
  from removeStoppedPeers_one_per_tick [OF h1 h2 h3, of dotted] ne
  have "\<exists>sw' pid. removeStoppedPeers dotted [''c'', ''b'', ''a''] (instance_with S) =
        (None, (instance_with S)\<lparr>Swarm := Some sw'\<rparr>) \<and> Get sw' = (Get S)(pid := None)"
    by blast
  with h1 h3 h4 show ?thesis unfolding S_def by blast
qed

text \<open>The claim as written fails for two stopped peers: after one call the second
  one is still in the table.\<close>

theorem removeStoppedPeers_leaves_stopped_counterexample:
  "map_option (\<lambda>sw. Get sw ''b'')
     (Swarm (snd (removeStoppedPeers dotted [''a'', ''b'']
        (instance_with (run_ops dotted
          [OpUpdate ''a'' (peer_with [10,1,0,5] [6,0,0,0,0,1] PeerStateStop),
           OpUpdate ''b'' (peer_with [10,1,0,6] [6,0,0,0,0,2] PeerStateStop)] Init))))) =
   Some (Some (peer_with [10,1,0,6] [6,0,0,0,0,2] PeerStateStop))"
proof -
  define S where "S = run_ops dotted
          [OpUpdate ''a'' (peer_with [10,1,0,5] [6,0,0,0,0,1] PeerStateStop),
           OpUpdate ''b'' (peer_with [10,1,0,6] [6,0,0,0,0,2] PeerStateStop)] Init"
  have S: "S = \<lparr>peers = Some [''a'' \<mapsto> peer_with [10,1,0,5] [6,0,0,0,0,1] PeerStateStop,
                            ''b'' \<mapsto> peer_with [10,1,0,6] [6,0,0,0,0,2] PeerStateStop],
     tableIPID = Some [''10.1.0.5'' \<mapsto> ''a'', ''10.1.0.6'' \<mapsto> ''b''],
     tableMacID = Some [''06:00:00:00:00:01'' \<mapsto> ''a'', ''06:00:00:00:00:02'' \<mapsto> ''b'']\<rparr>"
    unfolding S_def by (simp add: run_eval)
  have "removeStoppedPeers_range dotted (Get S) [''a'', ''b''] S = snd (Delete dotted ''a'' S)"
    unfolding S by (simp add: Get_def peer_with_sel)
  then have "Get (removeStoppedPeers_range dotted (Get S) [''a'', ''b''] S) ''b'' =
      Some (peer_with [10,1,0,6] [6,0,0,0,0,2] PeerStateStop)"
    unfolding S by (simp add: Delete_def operate_Delete_maps Get_def)
  then have "map_option (\<lambda>sw. Get sw ''b'')
     (Swarm (snd (removeStoppedPeers dotted [''a'', ''b''] (instance_with S)))) =
   Some (Some (peer_with [10,1,0,6] [6,0,0,0,0,2] PeerStateStop))"
    by (simp add: removeStoppedPeers_def instance_with_def)
  then show ?thesis unfolding S_def .
qed

text \<open>Over successive ticks the stopped peers drain, one per tick: after at least as
  many ticks as there are stopped peers none is left, when nothing else changes the
  table in between.\<close>

lemma removeStoppedPeers_ticks_drain:
  assumes "tableIPID sw \<noteq> None" "tableMacID sw \<noteq> None" "finite (dom (Get sw))"
    and "orders_cover ipStr orders sw" "card (stopped sw) \<le> length orders"
  shows "stopped (removeStoppedPeers_ticks ipStr orders sw) = {}"
  using assms
proof (induction orders arbitrary: sw)
  case Nil
  have "stopped sw \<subseteq> dom (Get sw)" by (auto simp: stopped_def)
  with Nil.prems(3) have "finite (stopped sw)" by (rule rev_finite_subset)
  with Nil.prems(5) show ?case by simp
next
  case (Cons order orders)
  let ?sw' = "removeStoppedPeers_range ipStr (Get sw) order sw"
  from Cons.prems(4) have cov: "set order = dom (Get sw)" and cov': "orders_cover ipStr orders ?sw'"
    by simp_all
  have "stopped sw \<subseteq> dom (Get sw)" by (auto simp: stopped_def)
  with Cons.prems(3) have fin: "finite (stopped sw)" by (rule rev_finite_subset)
  note one = removeStoppedPeers_range_one [OF Cons.prems(1,2) cov, of ipStr]
  show ?case
  proof (cases "stopped sw = {}")
    case True
    with one have eq: "?sw' = sw" by blast
    have "stopped (removeStoppedPeers_ticks ipStr orders ?sw') = {}"
    proof (rule Cons.IH)
      show "tableIPID ?sw' \<noteq> None" "tableMacID ?sw' \<noteq> None" "finite (dom (Get ?sw'))"
        using eq Cons.prems by simp_all
      show "orders_cover ipStr orders ?sw'" by (rule cov')
      show "card (stopped ?sw') \<le> length orders" using eq True by simp
    qed
    then show ?thesis by simp
  next
    case False
    with one obtain pid where pid: "pid \<in> stopped sw" and g: "Get ?sw' = (Get sw)(pid := None)"
      and t: "tableIPID ?sw' \<noteq> None" "tableMacID ?sw' \<noteq> None" by blast
    from stopped_after_removal [OF g] have s: "stopped ?sw' = stopped sw - {pid}" .
    have f: "finite (dom (Get ?sw'))" unfolding g using Cons.prems(3) by simp
    have "card (stopped ?sw') = card (stopped sw) - 1"
      unfolding s using fin pid by simp
    with Cons.prems(5) have c: "card (stopped ?sw') \<le> length orders" by simp
    have "stopped (removeStoppedPeers_ticks ipStr orders ?sw') = {}"
      by (rule Cons.IH [OF t f cov' c])
    then show ?thesis by simp
  qed
qed

section \<open>Introduction records\<close>










lemmas text_eval = HardwareAddr_String_def hex2_def hexdigit_def dec_byte_def decdigit_def

lemma example_texts:
  "HardwareAddr_String (Some [6,0,0,0,0,1]) = ''06:00:00:00:00:01''"
  "dotted [10,1,0,5] = ''10.1.0.5''"
  by (simp_all add: text_eval)

text \<open>
  Claim C7. For every introduction string that does not split into exactly four
  comma-separated fields, \<open>ParseIntroString\<close> returns the parse error that quotes the
  string, and no handshake; and processing such an introduction leaves the receiver,
  its swarm table included, unchanged.
\<close>

theorem ParseIntroString_wrong_field_count:
  assumes "length (Split intro CHR '','') \<noteq> 4"
  shows "ParseIntroString parseMAC parseIP resolveUDPAddr intro =
           Inl (Errorf (''Failed to parse introduction string: '' @ intro)) \<and>
         HandleIntroMessage parseMAC parseIP resolveUDPAddr ipStr intro p =
           (Some (Errorf (''Failed to parse introduction string: '' @ intro)), p)"
  using assms by (simp add: ParseIntroString_def HandleIntroMessage_def)

lemma example_intro_three_fields:
  "Split ''id1,06:00:00:00:00:01,10.1.0.5'' CHR '','' = [''id1'', ''06:00:00:00:00:01'', ''10.1.0.5'']"
  by simp

theorem ParseIntroString_wrong_field_count_witness:
  "length (Split ''id1,06:00:00:00:00:01,10.1.0.5'' CHR '','') \<noteq> 4 \<and>
   ParseIntroString example_ParseMAC example_ParseIP example_ResolveUDPAddr
       ''id1,06:00:00:00:00:01,10.1.0.5'' =
     Inl (Errorf ''Failed to parse introduction string: id1,06:00:00:00:00:01,10.1.0.5'') \<and>
   snd (HandleIntroMessage example_ParseMAC example_ParseIP example_ResolveUDPAddr dotted
          ''id1,06:00:00:00:00:01,10.1.0.5''
          (instance_with (run_ops dotted
             [OpUpdate ''id1'' (peer_with [10,1,0,5] [6,0,0,0,0,1] PeerStateConnecting)] Init))) =
     instance_with (run_ops dotted
       [OpUpdate ''id1'' (peer_with [10,1,0,5] [6,0,0,0,0,1] PeerStateConnecting)] Init)"
proof -
  define intro where "intro = ''id1,06:00:00:00:00:01,10.1.0.5''"
  define p where "p = instance_with (run_ops dotted
       [OpUpdate ''id1'' (peer_with [10,1,0,5] [6,0,0,0,0,1] PeerStateConnecting)] Init)"
  have h: "length (Split intro CHR '','') \<noteq> 4"
    unfolding intro_def example_intro_three_fields by simp
  from ParseIntroString_wrong_field_count [OF h, of example_ParseMAC example_ParseIP
      example_ResolveUDPAddr dotted p]
  have "ParseIntroString example_ParseMAC example_ParseIP example_ResolveUDPAddr intro =
           Inl (Errorf (''Failed to parse introduction string: '' @ intro))"
    and "snd (HandleIntroMessage example_ParseMAC example_ParseIP example_ResolveUDPAddr dotted intro p) = p"
    by simp_all
  with h show ?thesis unfolding intro_def p_def by simp
qed




section \<open>Endpoint latency probing\<close>

lemma Measure_cases:
  "(Measure env now n pid e = (e, [])) \<or>
   (EndpointLatencyRequestInterval env \<le> now - LastLatencyQuery e \<and> \<not> broken e \<and>
    (\<exists>sent. Measure env now n pid e = (e\<lparr>LastLatencyQuery := now\<rparr>, sent) \<and> length sent \<le> 1))"
  by (auto simp: Measure_def Let_def split: option.splits sum.splits)

lemma Measure_broken: "broken e \<Longrightarrow> Measure env now n pid e = (e, [])"
  by (simp add: Measure_def)

lemma Measure_run_broken: "broken e \<Longrightarrow> Measure_run env n pid ts e = []"
  by (induction ts) (simp_all add: Measure_broken)

lemma Measure_run_spaced:
  "sorted ts \<Longrightarrow>
     (\<forall>x \<in> set (Measure_run env n pid ts e).
        EndpointLatencyRequestInterval env \<le> fst x - LastLatencyQuery e \<and> fst x \<in> set ts) \<and>
     sorted_wrt (\<lambda>a b. EndpointLatencyRequestInterval env \<le> fst b - fst a)
       (Measure_run env n pid ts e)"
proof (induction ts arbitrary: e)
  case Nil
  then show ?case by simp
next
  case (Cons now later)
  from Cons.prems have sl: "sorted later" and le: "\<forall>t \<in> set later. now \<le> t" by simp_all
  from Measure_cases [of env now n pid e] show ?case
  proof
    assume m: "Measure env now n pid e = (e, [])"
    from Cons.IH [OF sl, of e] show ?thesis by (auto simp: m)
  next
    assume "EndpointLatencyRequestInterval env \<le> now - LastLatencyQuery e \<and> \<not> broken e \<and>
      (\<exists>sent. Measure env now n pid e = (e\<lparr>LastLatencyQuery := now\<rparr>, sent) \<and> length sent \<le> 1)"
    then obtain sent where i: "EndpointLatencyRequestInterval env \<le> now - LastLatencyQuery e"
      and m: "Measure env now n pid e = (e\<lparr>LastLatencyQuery := now\<rparr>, sent)"
      and l: "length sent \<le> 1" by blast
    let ?rest = "Measure_run env n pid later (e\<lparr>LastLatencyQuery := now\<rparr>)"
    from Cons.IH [OF sl, of "e\<lparr>LastLatencyQuery := now\<rparr>"]
    have r1: "\<forall>x \<in> set ?rest. EndpointLatencyRequestInterval env \<le> fst x - now \<and> fst x \<in> set later"
      and r2: "sorted_wrt (\<lambda>a b. EndpointLatencyRequestInterval env \<le> fst b - fst a) ?rest"
      by simp_all
    have run: "Measure_run env n pid (now # later) e = map (\<lambda>m. (now, m)) sent @ ?rest"
      by (simp add: m)
    have a: "\<forall>x \<in> set (map (\<lambda>m. (now, m)) sent @ ?rest).
        EndpointLatencyRequestInterval env \<le> fst x - LastLatencyQuery e \<and> fst x \<in> set (now # later)"
    proof
      fix x assume "x \<in> set (map (\<lambda>m. (now, m)) sent @ ?rest)"
      then consider "fst x = now" | "x \<in> set ?rest" by auto
      then show "EndpointLatencyRequestInterval env \<le> fst x - LastLatencyQuery e \<and> fst x \<in> set (now # later)"
      proof cases
        case 1
        with i show ?thesis by simp
      next
        case 2
        with r1 have "fst x \<in> set later" by blast
        with le have "now \<le> fst x" by blast
        with i \<open>fst x \<in> set later\<close> show ?thesis by simp
      qed
    qed
    have s1: "sorted_wrt (\<lambda>a b. EndpointLatencyRequestInterval env \<le> fst b - fst a) (map (\<lambda>m. (now, m)) sent)"
      using l by (cases sent) simp_all
    have b: "sorted_wrt (\<lambda>a b. EndpointLatencyRequestInterval env \<le> fst b - fst a)
        (map (\<lambda>m. (now, m)) sent @ ?rest)"
      unfolding sorted_wrt_append using s1 r2 r1 by auto
    from a b show ?thesis unfolding run by blast
  qed
qed

text \<open>
  Claim C9. \<open>Measure\<close> is a no-op (endpoint unchanged, nothing sent) whenever the
  endpoint is broken or the time since its last latency query is below
  \<open>EndpointLatencyRequestInterval\<close>; so calls of \<open>Measure\<close> on a broken endpoint send
  nothing, and of the messages that calls at non-decreasing clock readings send
  through an endpoint, any two are at least the interval apart.
\<close>

theorem Measure_rate_limited:
  "(broken e \<or> now - LastLatencyQuery e < EndpointLatencyRequestInterval env \<longrightarrow>
      Measure env now n pid e = (e, [])) \<and>
   (broken e \<longrightarrow> Measure_run env n pid ts e = []) \<and>
   (sorted ts \<longrightarrow>
      sorted_wrt (\<lambda>a b. EndpointLatencyRequestInterval env \<le> fst b - fst a)
        (Measure_run env n pid ts e))"
proof (intro conjI impI)
  assume "broken e \<or> now - LastLatencyQuery e < EndpointLatencyRequestInterval env"
  then show "Measure env now n pid e = (e, [])"
    by (auto simp: Measure_def split: option.splits)
next
  assume "broken e"
  then show "Measure_run env n pid ts e = []" by (rule Measure_run_broken)
next
  assume "sorted ts"
  from Measure_run_spaced [OF this]
  show "sorted_wrt (\<lambda>a b. EndpointLatencyRequestInterval env \<le> fst b - fst a)
        (Measure_run env n pid ts e)" by blast
qed

theorem Measure_rate_limited_witness:
  "sorted [5000, 5400, 6000, 6300, 7000 :: int] \<and>
   map fst (Measure_run example_latency_env (Some \<lparr>remotePort = 6881, localPort = 6881\<rparr>) ''id''
      [5000, 5400, 6000, 6300, 7000] (example_Endpoint False)) = [5000, 6000, 7000] \<and>
   sorted_wrt (\<lambda>a b. EndpointLatencyRequestInterval example_latency_env \<le> fst b - fst a)
     (Measure_run example_latency_env (Some \<lparr>remotePort = 6881, localPort = 6881\<rparr>) ''id''
        [5000, 5400, 6000, 6300, 7000] (example_Endpoint False)) \<and>
   Measure example_latency_env 5000 (Some \<lparr>remotePort = 6881, localPort = 6881\<rparr>) ''id''
     (example_Endpoint True) = (example_Endpoint True, []) \<and>
   Measure example_latency_env 400 (Some \<lparr>remotePort = 6881, localPort = 6881\<rparr>) ''id''
     (example_Endpoint False) = (example_Endpoint False, [])"
proof -
  define n where "n = Some \<lparr>remotePort = 6881, localPort = 6881\<rparr>"
  have s: "sorted [5000, 5400, 6000, 6300, 7000 :: int]" by simp
  have r: "map fst (Measure_run example_latency_env n ''id''
      [5000, 5400, 6000, 6300, 7000] (example_Endpoint False)) = [5000, 6000, 7000]"
    by (simp add: n_def Measure_def example_latency_env_def example_Endpoint_def addrToBytes_def
        To4_def Let_def)
  have b: "broken (example_Endpoint True) \<or>
      5000 - LastLatencyQuery (example_Endpoint True) < EndpointLatencyRequestInterval example_latency_env"
    by (simp add: example_Endpoint_def)
  have q: "broken (example_Endpoint False) \<or>
      400 - LastLatencyQuery (example_Endpoint False) < EndpointLatencyRequestInterval example_latency_env"
    by (simp add: example_Endpoint_def example_latency_env_def)
  note t1 = Measure_rate_limited [of "example_Endpoint False" 400 example_latency_env n "''id''"
      "[5000, 5400, 6000, 6300, 7000]"]
  note t2 = Measure_rate_limited [of "example_Endpoint True" 5000 example_latency_env n "''id''" "[]"]
  from t1 t2 s r b q show ?thesis unfolding n_def by blast
qed

section \<open>Construction of an instance\<close>

lemma hex2_6: "hex2 6 = ''06''"
  by (simp add: hex2_def hexdigit_def)

lemma GenerateMAC_text:
  assumes "length buf = 6"
  shows "''06:'' @ hex2 (buf[0 := (buf ! 0) OR 2] ! 1) @ '':'' @ hex2 (buf[0 := (buf ! 0) OR 2] ! 2) @ '':'' @
         hex2 (buf[0 := (buf ! 0) OR 2] ! 3) @ '':'' @ hex2 (buf[0 := (buf ! 0) OR 2] ! 4) @ '':'' @
         hex2 (buf[0 := (buf ! 0) OR 2] ! 5) = HardwareAddr_String (Some (6 # tl buf))"
proof -
  from assms obtain b0 b1 b2 b3 b4 b5 where buf: "buf = [b0, b1, b2, b3, b4, b5]"
    by (auto simp: numeral_eq_Suc length_Suc_conv)
  show ?thesis
    by (simp add: buf HardwareAddr_String_def hex2_6)
qed

lemma GenerateMAC_ok:
  assumes "length buf = 6"
    and "parseMAC (HardwareAddr_String (Some (6 # tl buf))) = Inr (6 # tl buf)"
  shows "GenerateMAC parseMAC (Some buf) = (HardwareAddr_String (Some (6 # tl buf)), Some (6 # tl buf))"
  unfolding GenerateMAC_def option.case Let_def GenerateMAC_text [OF assms(1)] assms(2)
  by simp

lemma generated_prefix:
  assumes "length buf = 6"
  shows "take 3 (HardwareAddr_String (Some (6 # tl buf))) = ''06:''"
proof -
  from assms obtain b0 b1 b2 b3 b4 b5 where buf: "buf = [b0, b1, b2, b3, b4, b5]"
    by (auto simp: numeral_eq_Suc length_Suc_conv)
  show ?thesis by (simp add: buf HardwareAddr_String_def hex2_6)
qed

lemma AssignInterface_no_hw:
  assumes "Interface p = Some t" "Mac t = None" "\<not> Configured t"
  shows "fst (AssignInterface openFile name (p, active)) \<noteq> None"
  using assms by (simp add: AssignInterface_def Let_def)

lemma New_Some:
  assumes "newTAP (ParseIP env) (ParseMAC env) (configurationTool env)
             ''127.0.0.1'' ''00:00:00:00:00:00'' = Inr tap"
    and "dhtInit env hash = Inr dht"
  shows "\<exists>p. New env mac hash fwd outbound = Some p \<and>
           Interface p = Some (tap\<lparr>Mac := validateMac (ParseMAC env) (randRead env) mac\<rparr>)"
  using assms by (simp add: New_def Let_def)

lemma newTAP_unconfigured: "newTAP pi pm tool ip mac = Inr tap \<Longrightarrow> \<not> Configured tap"
  by (auto simp: newTAP_def split: option.splits sum.splits)

text \<open>
  Claim C5, as amended. With an empty mac option, when \<open>rand.Read\<close> delivers its six
  bytes and \<open>net.ParseMAC\<close> reads the generated text back, \<open>GenerateMAC\<close> produces the
  address whose first byte is 06 (locally administered: the bit 0x02 is set) and whose
  other bytes are the bytes 1 to 5 of the random buffer, its text starting with
  \<open>06:\<close>, and \<open>New\<close> returns an instance whose device carries that address whenever the
  device object and the rendezvous client are created. With a mac option that is not
  empty and does not parse, \<open>validateMac\<close> returns nil and \<open>New\<close> does not fail on that
  account: whenever the device object and the rendezvous client are created it returns
  an instance whose device has no hardware address, and \<open>AssignInterface\<close> on that
  instance returns an error.
\<close>

theorem New_mac_option:
  "(mac = [] \<and> randRead env = Some buf \<and> length buf = 6 \<and>
      ParseMAC env (HardwareAddr_String (Some (6 # tl buf))) = Inr (6 # tl buf) \<longrightarrow>
        GenerateMAC (ParseMAC env) (randRead env) =
          (HardwareAddr_String (Some (6 # tl buf)), Some (6 # tl buf)) \<and>
        take 3 (fst (GenerateMAC (ParseMAC env) (randRead env))) = ''06:'' \<and>
        hd (6 # tl buf) AND 2 = 2 \<and>
        validateMac (ParseMAC env) (randRead env) mac = Some (6 # tl buf) \<and>
        (\<forall>tap dht.
           newTAP (ParseIP env) (ParseMAC env) (configurationTool env)
             ''127.0.0.1'' ''00:00:00:00:00:00'' = Inr tap \<and> dhtInit env hash = Inr dht \<longrightarrow>
           (\<exists>p. New env mac hash fwd outbound = Some p \<and>
                 map_option Mac (Interface p) = Some (Some (6 # tl buf))))) \<and>
   (mac \<noteq> [] \<and> ParseMAC env mac = Inl err \<longrightarrow>
        validateMac (ParseMAC env) (randRead env) mac = None \<and>
        (\<forall>tap dht.
           newTAP (ParseIP env) (ParseMAC env) (configurationTool env)
             ''127.0.0.1'' ''00:00:00:00:00:00'' = Inr tap \<and> dhtInit env hash = Inr dht \<longrightarrow>
           (\<exists>p. New env mac hash fwd outbound = Some p \<and>
                 map_option Mac (Interface p) = Some None \<and>
                 (\<forall>openFile name active.
                    fst (AssignInterface openFile name (p, active)) \<noteq> None))))"
proof (intro conjI impI)
  assume a: "mac = [] \<and> randRead env = Some buf \<and> length buf = 6 \<and>
      ParseMAC env (HardwareAddr_String (Some (6 # tl buf))) = Inr (6 # tl buf)"
  then have g: "GenerateMAC (ParseMAC env) (randRead env) =
          (HardwareAddr_String (Some (6 # tl buf)), Some (6 # tl buf))"
    using GenerateMAC_ok [of buf "ParseMAC env"] by simp
  then show "GenerateMAC (ParseMAC env) (randRead env) =
          (HardwareAddr_String (Some (6 # tl buf)), Some (6 # tl buf))" .
  from g a show "take 3 (fst (GenerateMAC (ParseMAC env) (randRead env))) = ''06:''"
    by (simp add: generated_prefix)
  show "hd (6 # tl buf) AND 2 = 2" by simp
  from g a show v: "validateMac (ParseMAC env) (randRead env) mac = Some (6 # tl buf)"
    by (simp add: validateMac_def)
  show "\<forall>tap dht.
           newTAP (ParseIP env) (ParseMAC env) (configurationTool env)
             ''127.0.0.1'' ''00:00:00:00:00:00'' = Inr tap \<and> dhtInit env hash = Inr dht \<longrightarrow>
           (\<exists>p. New env mac hash fwd outbound = Some p \<and>
                 map_option Mac (Interface p) = Some (Some (6 # tl buf)))"
  proof (intro allI impI)
    fix tap dht
    assume "newTAP (ParseIP env) (ParseMAC env) (configurationTool env)
             ''127.0.0.1'' ''00:00:00:00:00:00'' = Inr tap \<and> dhtInit env hash = Inr dht"
    then obtain p where "New env mac hash fwd outbound = Some p"
      "Interface p = Some (tap\<lparr>Mac := validateMac (ParseMAC env) (randRead env) mac\<rparr>)"
      using New_Some by blast
    with v show "\<exists>p. New env mac hash fwd outbound = Some p \<and>
                 map_option Mac (Interface p) = Some (Some (6 # tl buf))" by simp
  qed
next
  assume a: "mac \<noteq> [] \<and> ParseMAC env mac = Inl err"
  then show v: "validateMac (ParseMAC env) (randRead env) mac = None"
    by (simp add: validateMac_def)
  show "\<forall>tap dht.
           newTAP (ParseIP env) (ParseMAC env) (configurationTool env)
             ''127.0.0.1'' ''00:00:00:00:00:00'' = Inr tap \<and> dhtInit env hash = Inr dht \<longrightarrow>
           (\<exists>p. New env mac hash fwd outbound = Some p \<and>
                 map_option Mac (Interface p) = Some None \<and>
                 (\<forall>openFile name active.
                    fst (AssignInterface openFile name (p, active)) \<noteq> None))"
  proof (intro allI impI)
    fix tap dht
    assume t: "newTAP (ParseIP env) (ParseMAC env) (configurationTool env)
             ''127.0.0.1'' ''00:00:00:00:00:00'' = Inr tap \<and> dhtInit env hash = Inr dht"
    then obtain p where p: "New env mac hash fwd outbound = Some p"
      "Interface p = Some (tap\<lparr>Mac := validateMac (ParseMAC env) (randRead env) mac\<rparr>)"
      using New_Some by blast
    from t have nc: "\<not> Configured tap" using newTAP_unconfigured by blast
    have "fst (AssignInterface openFile name (p, active)) \<noteq> None" for openFile name active
      by (rule AssignInterface_no_hw [OF p(2)]) (simp_all add: v nc)
    with p v show "\<exists>p. New env mac hash fwd outbound = Some p \<and>
                 map_option Mac (Interface p) = Some None \<and>
                 (\<forall>openFile name active.
                    fst (AssignInterface openFile name (p, active)) \<noteq> None)" by simp
  qed
qed

lemma example_new_env_sel:
  "randRead example_new_env = Some [77,161,2,3,4,255]"
  "ParseMAC example_new_env ''06:a1:02:03:04:ff'' = Inr [6,161,2,3,4,255]"
  "ParseMAC example_new_env ''00:00:00:00:00:00'' = Inr [0,0,0,0,0,0]"
  "ParseMAC example_new_env ''zz'' = Inl (Errorf ''address zz: invalid MAC address'')"
  "ParseIP example_new_env ''127.0.0.1'' = Some [127,0,0,1]"
  "dhtInit example_new_env h = Inr \<lparr>NetworkHash = h, dht_ID = []\<rparr>"
  "configurationTool example_new_env = ''/sbin/ifconfig''"
  "boundPort example_new_env = 6881" "echoedPort example_new_env = 0"
  by (simp_all add: example_new_env_def)

lemma example_newTAP:
  "newTAP (ParseIP example_new_env) (ParseMAC example_new_env) (configurationTool example_new_env)
     ''127.0.0.1'' ''00:00:00:00:00:00'' =
   Inr \<lparr>tap_IP = Some [127,0,0,1], Subnet = None, Mac = Some [0,0,0,0,0,0], Name = [],
        Tool = ''/sbin/ifconfig'', file_open = False, Configured = False, Auto = False\<rparr>"
  unfolding newTAP_def example_new_env_sel by simp

theorem New_mac_option_witness:
  "GenerateMAC (ParseMAC example_new_env) (randRead example_new_env) =
     (''06:a1:02:03:04:ff'', Some [6,161,2,3,4,255]) \<and>
   validateMac (ParseMAC example_new_env) (randRead example_new_env) [] = Some [6,161,2,3,4,255] \<and>
   map_option (\<lambda>p. map_option Mac (Interface p)) (New example_new_env [] ''swarm'' False None) =
     Some (Some (Some [6,161,2,3,4,255])) \<and>
   validateMac (ParseMAC example_new_env) (randRead example_new_env) ''zz'' = None \<and>
   map_option (\<lambda>p. map_option Mac (Interface p)) (New example_new_env ''zz'' ''swarm'' False None) =
     Some (Some None)"
proof -
  define buf :: "byte list" where "buf = [77,161,2,3,4,255]"
  have g: "HardwareAddr_String (Some (6 # tl buf)) = ''06:a1:02:03:04:ff''" "6 # tl buf = [6,161,2,3,4,255]"
    unfolding buf_def by (simp_all add: text_eval)
  have h1: "[] = ([]::string) \<and> randRead example_new_env = Some buf \<and> length buf = 6 \<and>
      ParseMAC example_new_env (HardwareAddr_String (Some (6 # tl buf))) = Inr (6 # tl buf)"
    by (simp add: example_new_env_def buf_def text_eval)
  have h2: "''zz'' \<noteq> [] \<and> ParseMAC example_new_env ''zz'' = Inl (Errorf ''address zz: invalid MAC address'')"
    by (simp add: example_new_env_sel)
  have t: "newTAP (ParseIP example_new_env) (ParseMAC example_new_env) (configurationTool example_new_env)
     ''127.0.0.1'' ''00:00:00:00:00:00'' =
     Inr \<lparr>tap_IP = Some [127,0,0,1], Subnet = None, Mac = Some [0,0,0,0,0,0], Name = [],
        Tool = ''/sbin/ifconfig'', file_open = False, Configured = False, Auto = False\<rparr> \<and>
     dhtInit example_new_env ''swarm'' = Inr \<lparr>NetworkHash = ''swarm'', dht_ID = []\<rparr>"
    by (rule conjI [OF example_newTAP example_new_env_sel(6)])
  note a = New_mac_option [where mac = "[]" and env = example_new_env and buf = buf
      and hash = "''swarm''" and fwd = False and outbound = None]
  from a h1 t have 1: "GenerateMAC (ParseMAC example_new_env) (randRead example_new_env) =
          (HardwareAddr_String (Some (6 # tl buf)), Some (6 # tl buf))"
    and 2: "validateMac (ParseMAC example_new_env) (randRead example_new_env) [] = Some (6 # tl buf)"
    and 3: "\<exists>p. New example_new_env [] ''swarm'' False None = Some p \<and>
                 map_option Mac (Interface p) = Some (Some (6 # tl buf))"
    by blast+
  note b = New_mac_option [where mac = "''zz''" and env = example_new_env
      and hash = "''swarm''" and fwd = False and outbound = None
      and err = "Errorf ''address zz: invalid MAC address''"]
  from b h2 t have 4: "validateMac (ParseMAC example_new_env) (randRead example_new_env) ''zz'' = None"
    and 5: "\<exists>p. New example_new_env ''zz'' ''swarm'' False None = Some p \<and>
                 map_option Mac (Interface p) = Some None"
    by blast+
  from 3 have m3: "map_option (\<lambda>p. map_option Mac (Interface p)) (New example_new_env [] ''swarm'' False None) =
     Some (Some (Some (6 # tl buf)))" by auto
  from 5 have m5: "map_option (\<lambda>p. map_option Mac (Interface p)) (New example_new_env ''zz'' ''swarm'' False None) =
     Some (Some None)" by auto
  have e: "HardwareAddr_String (Some [6,161,2,3,4,255]) = ''06:a1:02:03:04:ff''"
    by (simp add: text_eval)
  from 1 2 m3 4 m5 show ?thesis unfolding g(2) e by blast
qed

text \<open>The claim as written fails: for the mac option \<open>zz\<close>, which does not parse,
  \<open>New\<close> returns an instance, with a device that has no hardware address.\<close>

theorem New_invalid_mac_counterexample:
  "ParseMAC example_new_env ''zz'' = Inl (Errorf ''address zz: invalid MAC address'') \<and>
   New example_new_env ''zz'' ''swarm'' False None =
     Some \<lparr>UDPSocket = Some \<lparr>remotePort = 6881, localPort = 6881\<rparr>,
           Dht = Some \<lparr>NetworkHash = ''swarm'', dht_ID = []\<rparr>,
           Shutdown = False, ForwardMode = False, ReadyToStop = False, Hash = ''swarm'',
           Interface = Some \<lparr>tap_IP = Some [127,0,0,1], Subnet = None, Mac = None, Name = [],
             Tool = ''/sbin/ifconfig'', file_open = False, Configured = False, Auto = False\<rparr>,
           Swarm = Some Init, outboundIP = None\<rparr>"
  unfolding New_def example_newTAP
  by (simp add: example_new_env_sel validateMac_def)

section \<open>Shutdown\<close>









lemma example_Equal_index: "Equal_index (Some [10,1,0,1]) [Some [10,1,0,1]] = Some 0"
  by (simp add: IP_Equal_def)





section \<open>Auto-IP reconciliation\<close>

declare discoverIP_loop.simps [simp del]











text \<open>When no address is ever set, the loop condition \<open>i > 0\<close> is read before \<open>i\<close> is
  decremented, so that the last query names a.b.c.0.\<close>

lemma discoverIP_loop_last_candidate:
  assumes "1500 < now - lastRequest" "3 \<le> length sn"
  shows "discoverIP_loop never_assigned sn n now 1 lastRequest =
           (Some (Errorf ''Failed to get free IP for this swarm''), [(now, candidate sn 0)])"
proof -
  have "discoverIP_loop never_assigned sn (Suc n) (now + 100) 0 now =
      (Some (Errorf ''Failed to get free IP for this swarm''), [])"
    by (subst discoverIP_loop.simps) (simp add: never_assigned_def)
  then show ?thesis
    using assms by (subst discoverIP_loop.simps) (simp add: never_assigned_def)
qed

end
